theory Spec2Isabelle
  imports Complex_Main "HOL-Library.AList"
begin

section \<open>The JavaScript values the backend computes with\<close>

text \<open>
  The attendance backend (\<^verbatim>\<open>mockBackend.tsx\<close> and the edge function that follows it in
  the same file) builds its QR tokens with \<^verbatim>\<open>JSON.stringify\<close>, takes them apart with
  \<^verbatim>\<open>String.prototype.split\<close> and \<^verbatim>\<open>JSON.parse\<close>, and compares the parsed \<^verbatim>\<open>expiry\<close>
  with \<^verbatim>\<open>Date.now()\<close>. The payload is untyped in the source, so the model keeps the
  whole universe of values that \<^verbatim>\<open>JSON.parse\<close> can return, together with the coercions
  that \<^verbatim>\<open><\<close>, \<^verbatim>\<open>>\<close> and template literals apply to them.

  Strings are lists of 8-bit characters. Numbers are IEEE doubles: a finite double is
  the real number it denotes (the two zeros are not distinguished; no operation of the
  backend tells them apart), and rounding to the nearest double is written out.
\<close>

datatype jsnum = NaN | PInf | NInf | Fin real

datatype jsval =
    JUndefined
  | JNull
  | JBool bool
  | JNum jsnum
  | JStr string
  | JArr "jsval list"
  | JObj "(string \<times> jsval) list"

subsection \<open>Rounding to a double\<close>

function ilog2_int :: "int \<Rightarrow> int" where
  \<comment> \<open>for \<open>1 \<le> n\<close>: the \<open>e\<close> with \<open>2 ^ e \<le> n < 2 ^ (e + 1)\<close>\<close>
  "ilog2_int n = (if n \<le> 1 then 0 else 1 + ilog2_int (n div 2))"
  by pat_completeness auto
termination
  by (relation "measure nat") auto

declare ilog2_int.simps [simp del]

definition ilog2 :: "real \<Rightarrow> int" where
  \<comment> \<open>for \<open>0 < q\<close>: the \<open>e\<close> with \<open>2 ^ e \<le> q < 2 ^ (e + 1)\<close>\<close>
  "ilog2 q =
     (if 1 \<le> q then ilog2_int \<lfloor>q\<rfloor>
      else - (1 + ilog2_int (\<lceil>1 / q\<rceil> - 1)))"

definition pow2 :: "int \<Rightarrow> real" where
  "pow2 e = (if 0 \<le> e then 2 ^ nat e else 1 / 2 ^ nat (- e))"

definition pow10 :: "int \<Rightarrow> real" where
  "pow10 e = (if 0 \<le> e then 10 ^ nat e else 1 / 10 ^ nat (- e))"

definition round_half_even :: "real \<Rightarrow> int" where
  "round_half_even m =
     (let f = \<lfloor>m\<rfloor>; d = m - of_int f
      in if d < 1 / 2 then f
         else if 1 / 2 < d then f + 1
         else if even f then f else f + 1)"

definition round_double_pos :: "real \<Rightarrow> real" where
  \<comment> \<open>for \<open>0 < q\<close>: 53 significant bits, gradual underflow below \<open>2 ^ - 1022\<close>\<close>
  "round_double_pos q =
     (let e = max (ilog2 q) (- 1022); u = pow2 (e - 52)
      in of_int (round_half_even (q / u)) * u)"

definition round_double :: "real \<Rightarrow> real" where
  \<comment> \<open>the nearest double, ties to even, overflow left aside\<close>
  "round_double q =
     (if q = 0 then 0
      else if q < 0 then - round_double_pos (- q)
      else round_double_pos q)"

definition to_double :: "real \<Rightarrow> jsnum" where
  "to_double q =
     (let v = round_double q
      in if 2 ^ 1024 \<le> v then PInf
         else if v \<le> - (2 ^ 1024) then NInf
         else Fin v)"

definition Math_round :: "real \<Rightarrow> int" where
  \<comment> \<open>\<^verbatim>\<open>Math.round\<close> on a finite double: the nearest integer, a tie goes up\<close>
  "Math_round x = \<lfloor>x + 1 / 2\<rfloor>"

subsection \<open>Characters and digits\<close>

definition dquote :: char where "dquote = CHR 0x22"
definition backslash :: char where "backslash = CHR 0x5C"

definition char_code :: "char \<Rightarrow> nat" where
  "char_code c = of_char c"

definition is_digit :: "char \<Rightarrow> bool" where
  "is_digit c = (48 \<le> char_code c \<and> char_code c \<le> 57)"

definition digit_val :: "char \<Rightarrow> int" where
  "digit_val c = int (char_code c) - 48"

definition hex_val :: "char \<Rightarrow> int option" where
  "hex_val c =
     (let n = int (char_code c)
      in if 48 \<le> n \<and> n \<le> 57 then Some (n - 48)
         else if 65 \<le> n \<and> n \<le> 70 then Some (n - 55)
         else if 97 \<le> n \<and> n \<le> 102 then Some (n - 87)
         else None)"

definition digits_value :: "int \<Rightarrow> int list \<Rightarrow> int" where
  "digits_value b ds = foldl (\<lambda>n d. b * n + d) 0 ds"

definition decimal_value :: "string \<Rightarrow> int" where
  "decimal_value s = digits_value 10 (map digit_val s)"

definition take_sign :: "string \<Rightarrow> bool \<times> string" where
  \<comment> \<open>an optional \<open>+\<close> or \<open>-\<close>; the flag says "negative"\<close>
  "take_sign s =
     (case s of
        [] \<Rightarrow> (False, s)
      | c # r \<Rightarrow> if c = CHR ''-'' then (True, r)
                else if c = CHR ''+'' then (False, r)
                else (False, s))"

definition take_exponent :: "string \<Rightarrow> (int \<times> string) option" where
  \<comment> \<open>an optional exponent part \<open>e\<close>, sign, digits; \<open>None\<close> if it has no digit\<close>
  "take_exponent s =
     (case s of
        [] \<Rightarrow> Some (0, s)
      | c # r \<Rightarrow>
          if c = CHR ''e'' \<or> c = CHR ''E'' then
            (let (neg, r1) = take_sign r; ds = takeWhile is_digit r1
             in if ds = [] then None
                else Some ((if neg then - decimal_value ds else decimal_value ds),
                           dropWhile is_digit r1))
          else Some (0, s))"

definition decimal_rat :: "bool \<Rightarrow> string \<Rightarrow> string \<Rightarrow> int \<Rightarrow> real" where
  \<comment> \<open>sign, integer digits, fraction digits, exponent\<close>
  "decimal_rat neg ip fp ex =
     (let m = (of_int (decimal_value ip) + of_int (decimal_value fp) / 10 ^ length fp) * pow10 ex
      in if neg then - m else m)"

subsection \<open>\<^verbatim>\<open>JSON.parse\<close>\<close>

definition json_number :: "string \<Rightarrow> jsnum option" where
  \<comment> \<open>the JSON number grammar: \<open>-? (0 | [1-9][0-9]*) (. [0-9]+)? ([eE] [+-]? [0-9]+)?\<close>\<close>
  "json_number s =
     (let (neg, s1) = (case s of [] \<Rightarrow> (False, s)
                       | c # r \<Rightarrow> if c = CHR ''-'' then (True, r) else (False, s));
          ip = takeWhile is_digit s1;
          s2 = dropWhile is_digit s1;
          (fp, s3) = (case s2 of [] \<Rightarrow> (None, s2)
                      | c # r \<Rightarrow> if c = CHR ''.''
                                then (Some (takeWhile is_digit r), dropWhile is_digit r)
                                else (None, s2))
      in if ip = [] \<or> (1 < length ip \<and> hd ip = CHR ''0'') \<or> fp = Some [] then None
         else (case take_exponent s3 of
                 None \<Rightarrow> None
               | Some (ex, s4) \<Rightarrow>
                   if s4 \<noteq> [] then None
                   else Some (to_double (decimal_rat neg ip (case fp of None \<Rightarrow> [] | Some f \<Rightarrow> f) ex))))"

definition json_word :: "string \<Rightarrow> jsval option" where
  "json_word w =
     (if w = ''true'' then Some (JBool True)
      else if w = ''false'' then Some (JBool False)
      else if w = ''null'' then Some JNull
      else None)"

datatype token =
    TLBrace | TRBrace | TLBracket | TRBracket | TColon | TComma
  | TString string
  | TAtom jsval

datatype lex_mode =
    LPlain
  | LString string
  | LEscape string
  | LUnicode string "int list"
  | LNumber string
  | LWord string

definition is_json_ws :: "char \<Rightarrow> bool" where
  "is_json_ws c = (char_code c \<in> {9, 10, 13, 32})"

definition is_number_char :: "char \<Rightarrow> bool" where
  "is_number_char c = (is_digit c \<or> c \<in> {CHR ''-'', CHR ''+'', CHR ''.'', CHR ''e'', CHR ''E''})"

definition is_lower :: "char \<Rightarrow> bool" where
  "is_lower c = (97 \<le> char_code c \<and> char_code c \<le> 122)"

definition escape_char :: "char \<Rightarrow> char option" where
  "escape_char c =
     (if c = dquote \<or> c = backslash \<or> c = CHR ''/'' then Some c
      else if c = CHR ''b'' then Some (CHR 0x08)
      else if c = CHR ''f'' then Some (CHR 0x0C)
      else if c = CHR ''n'' then Some (CHR 0x0A)
      else if c = CHR ''r'' then Some (CHR 0x0D)
      else if c = CHR ''t'' then Some (CHR 0x09)
      else None)"

definition lex_plain :: "char \<Rightarrow> (lex_mode \<times> token list) option" where
  "lex_plain c =
     (if is_json_ws c then Some (LPlain, [])
      else if c = CHR ''{'' then Some (LPlain, [TLBrace])
      else if c = CHR ''}'' then Some (LPlain, [TRBrace])
      else if c = CHR ''['' then Some (LPlain, [TLBracket])
      else if c = CHR '']'' then Some (LPlain, [TRBracket])
      else if c = CHR '':'' then Some (LPlain, [TColon])
      else if c = CHR '','' then Some (LPlain, [TComma])
      else if c = dquote then Some (LString [], [])
      else if is_number_char c then Some (LNumber [c], [])
      else if is_lower c then Some (LWord [c], [])
      else None)"

definition lex_flush :: "token \<Rightarrow> char \<Rightarrow> (lex_mode \<times> token list) option" where
  \<comment> \<open>a number or a word has ended at \<open>c\<close>: emit it, then read \<open>c\<close> as a fresh character\<close>
  "lex_flush t c =
     (case lex_plain c of
        None \<Rightarrow> None
      | Some (m, ts) \<Rightarrow> Some (m, t # ts))"

fun lex_step :: "lex_mode \<Rightarrow> char \<Rightarrow> (lex_mode \<times> token list) option" where
  \<comment> \<open>one character of the text. A four-digit escape above \<^verbatim>\<open>00FF\<close> names no 8-bit character;
      the model refuses the text, where \<^verbatim>\<open>JSON.parse\<close> would read a 16-bit unit.\<close>
  "lex_step LPlain c = lex_plain c"
| "lex_step (LString s) c =
     (if c = dquote then Some (LPlain, [TString (rev s)])
      else if c = backslash then Some (LEscape s, [])
      else if char_code c < 32 then None
      else Some (LString (c # s), []))"
| "lex_step (LEscape s) c =
     (case escape_char c of
        Some x \<Rightarrow> Some (LString (x # s), [])
      | None \<Rightarrow> if c = CHR ''u'' then Some (LUnicode s [], []) else None)"
| "lex_step (LUnicode s ds) c =
     (case hex_val c of
        None \<Rightarrow> None
      | Some d \<Rightarrow>
          if length ds < 3 then Some (LUnicode s (ds @ [d]), [])
          else (let n = digits_value 16 (ds @ [d])
                in if n < 256 then Some (LString (char_of n # s), []) else None))"
| "lex_step (LNumber n) c =
     (if is_number_char c then Some (LNumber (c # n), [])
      else (case json_number (rev n) of
              None \<Rightarrow> None
            | Some v \<Rightarrow> lex_flush (TAtom (JNum v)) c))"
| "lex_step (LWord w) c =
     (if is_lower c then Some (LWord (c # w), [])
      else (case json_word (rev w) of
              None \<Rightarrow> None
            | Some v \<Rightarrow> lex_flush (TAtom v) c))"

fun lex_end :: "lex_mode \<Rightarrow> token list option" where
  "lex_end LPlain = Some []"
| "lex_end (LNumber n) = map_option (\<lambda>v. [TAtom (JNum v)]) (json_number (rev n))"
| "lex_end (LWord w) = map_option (\<lambda>v. [TAtom v]) (json_word (rev w))"
| "lex_end _ = None"

fun lex_run :: "lex_mode \<Rightarrow> string \<Rightarrow> token list option" where
  "lex_run m [] = lex_end m"
| "lex_run m (c # cs) =
     (case lex_step m c of
        None \<Rightarrow> None
      | Some (m', ts) \<Rightarrow> map_option (\<lambda>r. ts @ r) (lex_run m' cs))"

datatype frame =
    FArr "jsval list"
  | FObj "(string \<times> jsval) list"
  | FKey "(string \<times> jsval) list" string

datatype parse_mode =
    PValue | PFirst | PKeyOrEnd | PKey | PColon | PAfter | PDone jsval

fun put_value :: "jsval \<Rightarrow> frame list \<Rightarrow> (parse_mode \<times> frame list) option" where
  "put_value v [] = Some (PDone v, [])"
| "put_value v (FArr es # st) = Some (PAfter, FArr (v # es) # st)"
| "put_value v (FKey ms k # st) = Some (PAfter, FObj ((k, v) # ms) # st)"
| "put_value v (FObj ms # st) = None"

fun open_value :: "token \<Rightarrow> frame list \<Rightarrow> (parse_mode \<times> frame list) option" where
  "open_value (TAtom v) st = put_value v st"
| "open_value (TString s) st = put_value (JStr s) st"
| "open_value TLBracket st = Some (PFirst, FArr [] # st)"
| "open_value TLBrace st = Some (PKeyOrEnd, FObj [] # st)"
| "open_value _ st = None"

definition close_array :: "frame list \<Rightarrow> (parse_mode \<times> frame list) option" where
  "close_array st =
     (case st of
        FArr es # st' \<Rightarrow> put_value (JArr (rev es)) st'
      | _ \<Rightarrow> None)"

definition close_object :: "frame list \<Rightarrow> (parse_mode \<times> frame list) option" where
  "close_object st =
     (case st of
        FObj ms # st' \<Rightarrow> put_value (JObj (rev ms)) st'
      | _ \<Rightarrow> None)"

definition open_key :: "string \<Rightarrow> frame list \<Rightarrow> (parse_mode \<times> frame list) option" where
  "open_key k st =
     (case st of
        FObj ms # st' \<Rightarrow> Some (PColon, FKey ms k # st')
      | _ \<Rightarrow> None)"

definition next_member :: "frame list \<Rightarrow> (parse_mode \<times> frame list) option" where
  \<comment> \<open>a comma after a value: an element follows in an array, a key in an object\<close>
  "next_member st =
     (case st of
        FArr es # st' \<Rightarrow> Some (PValue, st)
      | FObj ms # st' \<Rightarrow> Some (PKey, st)
      | _ \<Rightarrow> None)"

definition parse_step :: "parse_mode \<Rightarrow> frame list \<Rightarrow> token \<Rightarrow> (parse_mode \<times> frame list) option" where
  "parse_step m st t =
     (case m of
        PValue \<Rightarrow> open_value t st
      | PFirst \<Rightarrow> (case t of TRBracket \<Rightarrow> close_array st | _ \<Rightarrow> open_value t st)
      | PKeyOrEnd \<Rightarrow> (case t of TRBrace \<Rightarrow> close_object st | TString k \<Rightarrow> open_key k st | _ \<Rightarrow> None)
      | PKey \<Rightarrow> (case t of TString k \<Rightarrow> open_key k st | _ \<Rightarrow> None)
      | PColon \<Rightarrow> (case t of TColon \<Rightarrow> Some (PValue, st) | _ \<Rightarrow> None)
      | PAfter \<Rightarrow> (case t of TComma \<Rightarrow> next_member st
                             | TRBracket \<Rightarrow> close_array st
                             | TRBrace \<Rightarrow> close_object st
                             | _ \<Rightarrow> None)
      | PDone v \<Rightarrow> None)"

fun parse_run :: "parse_mode \<Rightarrow> frame list \<Rightarrow> token list \<Rightarrow> jsval option" where
  "parse_run m st [] = (case m of PDone v \<Rightarrow> Some v | _ \<Rightarrow> None)"
| "parse_run m st (t # ts) =
     (case parse_step m st t of
        None \<Rightarrow> None
      | Some (m', st') \<Rightarrow> parse_run m' st' ts)"

definition JSON_parse :: "string \<Rightarrow> jsval option" where
  \<comment> \<open>\<open>None\<close> is the \<^verbatim>\<open>SyntaxError\<close> that \<^verbatim>\<open>JSON.parse\<close> throws\<close>
  "JSON_parse text =
     (case lex_run LPlain text of
        None \<Rightarrow> None
      | Some ts \<Rightarrow> parse_run PValue [] ts)"

text \<open>
  What a text without a colon can denote: values in which no object has a member. The
  lexer then emits no colon token, and the parser never completes a member.
\<close>

fun memberless :: "jsval \<Rightarrow> bool" where
  "memberless (JObj ms) = (ms = [])"
| "memberless (JArr vs) = list_all memberless vs"
| "memberless _ = True"

fun colon_free_token :: "token \<Rightarrow> bool" where
  "colon_free_token TColon = False"
| "colon_free_token (TAtom v) = memberless v"
| "colon_free_token _ = True"

fun frame_ok :: "frame \<Rightarrow> bool" where
  "frame_ok (FArr es) = list_all memberless es"
| "frame_ok (FObj ms) = (ms = [])"
| "frame_ok (FKey ms k) = False"

fun mode_ok :: "parse_mode \<Rightarrow> bool" where
  "mode_ok (PDone v) = memberless v"
| "mode_ok PColon = False"
| "mode_ok _ = True"

subsection \<open>Numbers to strings and back\<close>

function ilog10_int :: "int \<Rightarrow> int" where
  \<comment> \<open>for \<open>1 \<le> n\<close>: the \<open>e\<close> with \<open>10 ^ e \<le> n < 10 ^ (e + 1)\<close>\<close>
  "ilog10_int n = (if n < 10 then 0 else 1 + ilog10_int (n div 10))"
  by pat_completeness auto
termination
  by (relation "measure nat") auto

declare ilog10_int.simps [simp del]

definition ilog10 :: "real \<Rightarrow> int" where
  \<comment> \<open>for \<open>0 < q\<close>: the \<open>e\<close> with \<open>10 ^ e \<le> q < 10 ^ (e + 1)\<close>\<close>
  "ilog10 q =
     (if 1 \<le> q then ilog10_int \<lfloor>q\<rfloor>
      else - (1 + ilog10_int (\<lceil>1 / q\<rceil> - 1)))"

definition digit_char :: "int \<Rightarrow> char" where
  "digit_char d = ''0123456789'' ! nat d"

function digits_of :: "int \<Rightarrow> string" where
  \<comment> \<open>the decimal digits of \<open>n \<ge> 0\<close>\<close>
  "digits_of n = (if n < 10 then [digit_char n] else digits_of (n div 10) @ [digit_char (n mod 10)])"
  by pat_completeness auto
termination
  by (relation "measure nat") auto

declare digits_of.simps [simp del]

definition rounds_to :: "real \<Rightarrow> int \<Rightarrow> int \<Rightarrow> bool" where
  \<comment> \<open>the decimal \<open>s \<times> 10 ^ e\<close> denotes the double \<open>x\<close>\<close>
  "rounds_to x s e = (to_double (of_int s * pow10 e) = Fin x)"

definition digits_at :: "real \<Rightarrow> int \<Rightarrow> int \<Rightarrow> int option" where
  \<comment> \<open>a \<open>k\<close>-digit significand \<open>s\<close> with \<open>s \<times> 10 ^ (n - k)\<close> denoting \<open>x\<close>, the one nearest
      to \<open>x\<close> if there are two (the even one on a tie)\<close>
  "digits_at x n k =
     (let v = x / pow10 (n - k); lo = \<lfloor>v\<rfloor>; hi = lo + 1;
          lo_ok = rounds_to x lo (n - k);
          hi_ok = (hi < 10 ^ nat k \<and> rounds_to x hi (n - k))
      in if lo_ok \<and> hi_ok then
           (if v - of_int lo < of_int hi - v then Some lo
            else if of_int hi - v < v - of_int lo then Some hi
            else if even lo then Some lo else Some hi)
         else if lo_ok then Some lo
         else if hi_ok then Some hi
         else None)"

fun shortest_digits :: "real \<Rightarrow> int \<Rightarrow> int list \<Rightarrow> (int \<times> int) option" where
  \<comment> \<open>the first length \<open>k\<close> of the list that has a significand, with that significand\<close>
  "shortest_digits x n [] = None"
| "shortest_digits x n (k # ks) =
     (case digits_at x n k of
        Some s \<Rightarrow> Some (s, k)
      | None \<Rightarrow> shortest_digits x n ks)"

definition number_layout :: "string \<Rightarrow> int \<Rightarrow> int \<Rightarrow> string" where
  \<comment> \<open>\<^verbatim>\<open>Number::toString\<close>, the digits \<open>d\<close> (there are \<open>k\<close>) and the decimal exponent \<open>n\<close>\<close>
  "number_layout d k n =
     (if k \<le> n \<and> n \<le> 21 then d @ replicate (nat (n - k)) (CHR ''0'')
      else if 0 < n \<and> n \<le> 21 then take (nat n) d @ ''.'' @ drop (nat n) d
      else if - 6 < n \<and> n \<le> 0 then ''0.'' @ replicate (nat (- n)) (CHR ''0'') @ d
      else (let e = n - 1;
                ex = (if e < 0 then ''-'' else ''+'') @ digits_of \<bar>e\<bar>
            in if k = 1 then d @ ''e'' @ ex
               else take 1 d @ ''.'' @ drop 1 d @ ''e'' @ ex))"

definition positive_to_string :: "real \<Rightarrow> string" where
  \<comment> \<open>for a double \<open>0 < x\<close>: as few digits as denote \<open>x\<close>; seventeen always do\<close>
  "positive_to_string x =
     (let n = ilog10 x + 1
      in if rounds_to x 1 n then number_layout ''1'' 1 (n + 1)
         else (case shortest_digits x n [1, 2, 3, 4, 5, 6, 7, 8, 9, 10, 11, 12, 13, 14, 15, 16, 17] of
                 Some (s, k) \<Rightarrow> number_layout (digits_of s) k n
               | None \<Rightarrow> number_layout (digits_of \<lfloor>x / pow10 (n - 17)\<rfloor>) 17 n))"

definition number_to_string :: "jsnum \<Rightarrow> string" where
  "number_to_string x =
     (case x of
        NaN \<Rightarrow> ''NaN''
      | PInf \<Rightarrow> ''Infinity''
      | NInf \<Rightarrow> ''-Infinity''
      | Fin q \<Rightarrow> if q = 0 then ''0''
                 else if q < 0 then ''-'' @ positive_to_string (- q)
                 else positive_to_string q)"

definition is_str_ws :: "char \<Rightarrow> bool" where
  \<comment> \<open>the white space and line terminators that \<^verbatim>\<open>StringToNumber\<close> trims, among 8-bit characters\<close>
  "is_str_ws c = (char_code c \<in> {9, 10, 11, 12, 13, 32, 160})"

definition trim_ws :: "string \<Rightarrow> string" where
  "trim_ws s = rev (dropWhile is_str_ws (rev (dropWhile is_str_ws s)))"

fun sequence_options :: "'a option list \<Rightarrow> 'a list option" where
  "sequence_options [] = Some []"
| "sequence_options (None # xs) = None"
| "sequence_options (Some x # xs) = map_option (\<lambda>r. x # r) (sequence_options xs)"

definition radix_literal :: "string \<Rightarrow> real option" where
  \<comment> \<open>\<open>0x\<close>, \<open>0o\<close> and \<open>0b\<close> literals, which take no sign\<close>
  "radix_literal s =
     (case s of
        z # r # ds \<Rightarrow>
          (let b = (if r = CHR ''x'' \<or> r = CHR ''X'' then 16
                    else if r = CHR ''o'' \<or> r = CHR ''O'' then 8
                    else if r = CHR ''b'' \<or> r = CHR ''B'' then 2
                    else (0::int))
           in if z = CHR ''0'' \<and> b \<noteq> 0 \<and> ds \<noteq> []
              then (case sequence_options (map hex_val ds) of
                      None \<Rightarrow> None
                    | Some vs \<Rightarrow> if list_all (\<lambda>d. d < b) vs then Some (of_int (digits_value b vs)) else None)
              else None)
      | _ \<Rightarrow> None)"

definition decimal_literal :: "string \<Rightarrow> jsnum" where
  \<comment> \<open>\<^verbatim>\<open>StrDecimalLiteral\<close>: a sign, then \<open>Infinity\<close>, or digits with an optional point and exponent\<close>
  "decimal_literal s =
     (let (neg, s1) = take_sign s
      in if s1 = ''Infinity'' then (if neg then NInf else PInf)
         else (let ip = takeWhile is_digit s1;
                   s2 = dropWhile is_digit s1;
                   (dot, fp, s3) = (case s2 of [] \<Rightarrow> (False, [], s2)
                                    | c # r \<Rightarrow> if c = CHR ''.''
                                              then (True, takeWhile is_digit r, dropWhile is_digit r)
                                              else (False, [], s2))
               in if ip = [] \<and> fp = [] then NaN
                  else (case take_exponent s3 of
                          None \<Rightarrow> NaN
                        | Some (ex, s4) \<Rightarrow>
                            if s4 \<noteq> [] then NaN else to_double (decimal_rat neg ip fp ex))))"

definition string_to_number :: "string \<Rightarrow> jsnum" where
  \<comment> \<open>\<^verbatim>\<open>StringToNumber\<close>: the empty string is 0, what is no numeric literal is \<open>NaN\<close>\<close>
  "string_to_number s =
     (let t = trim_ws s
      in if t = [] then Fin 0
         else (case radix_literal t of
                 Some v \<Rightarrow> to_double v
               | None \<Rightarrow> decimal_literal t))"

subsection \<open>Coercions, property access, comparison with the clock\<close>

fun join_strings :: "string list \<Rightarrow> string" where
  \<comment> \<open>\<^verbatim>\<open>Array.prototype.join\<close> with the default separator\<close>
  "join_strings [] = []"
| "join_strings [x] = x"
| "join_strings (x # y # ys) = x @ '','' @ join_strings (y # ys)"

fun js_to_string :: "jsval \<Rightarrow> string option" where
  \<comment> \<open>\<^verbatim>\<open>ToString\<close>; \<open>None\<close> is the \<^verbatim>\<open>TypeError\<close> of an object whose own \<^verbatim>\<open>toString\<close>
      property hides the inherited method\<close>
  "js_to_string JUndefined = Some ''undefined''"
| "js_to_string JNull = Some ''null''"
| "js_to_string (JBool b) = Some (if b then ''true'' else ''false'')"
| "js_to_string (JNum n) = Some (number_to_string n)"
| "js_to_string (JStr s) = Some s"
| "js_to_string (JArr vs) =
     map_option join_strings
       (sequence_options
          (map (\<lambda>v. if v = JNull \<or> v = JUndefined then Some [] else js_to_string v) vs))"
| "js_to_string (JObj ms) =
     (if ''toString'' \<in> fst ` set ms then None else Some ''[object Object]'')"

fun js_to_number :: "jsval \<Rightarrow> jsnum option" where
  \<comment> \<open>\<^verbatim>\<open>ToNumber\<close>; arrays and objects go through their string\<close>
  "js_to_number JUndefined = Some NaN"
| "js_to_number JNull = Some (Fin 0)"
| "js_to_number (JBool b) = Some (Fin (if b then 1 else 0))"
| "js_to_number (JNum n) = Some n"
| "js_to_number (JStr s) = Some (string_to_number s)"
| "js_to_number v = map_option string_to_number (js_to_string v)"

fun js_truthy :: "jsval \<Rightarrow> bool" where
  "js_truthy JUndefined = False"
| "js_truthy JNull = False"
| "js_truthy (JBool b) = b"
| "js_truthy (JNum n) = (n \<noteq> NaN \<and> n \<noteq> Fin 0)"
| "js_truthy (JStr s) = (s \<noteq> [])"
| "js_truthy _ = True"

fun js_get :: "jsval \<Rightarrow> string \<Rightarrow> jsval option" where
  \<comment> \<open>\<^verbatim>\<open>v.k\<close> for a property name \<open>k\<close> that no prototype defines (\<^verbatim>\<open>expiry\<close>, \<^verbatim>\<open>sessionId\<close>,
      \<^verbatim>\<open>scanType\<close>); \<open>None\<close> is the \<^verbatim>\<open>TypeError\<close> on \<^verbatim>\<open>null\<close> and \<^verbatim>\<open>undefined\<close>. Of two
      members with one key, \<^verbatim>\<open>JSON.parse\<close> keeps the later.\<close>
  "js_get JUndefined k = None"
| "js_get JNull k = None"
| "js_get (JObj ms) k = Some (case map_of (rev ms) k of None \<Rightarrow> JUndefined | Some v \<Rightarrow> v)"
| "js_get _ k = Some JUndefined"

definition js_gt_now :: "jsval \<Rightarrow> int \<Rightarrow> bool option" where
  \<comment> \<open>\<^verbatim>\<open>v > Date.now()\<close>\<close>
  "js_gt_now v now =
     map_option (\<lambda>n. case n of Fin q \<Rightarrow> of_int now < q | PInf \<Rightarrow> True | _ \<Rightarrow> False) (js_to_number v)"

definition js_lt_now :: "jsval \<Rightarrow> int \<Rightarrow> bool option" where
  \<comment> \<open>\<^verbatim>\<open>v < Date.now()\<close>\<close>
  "js_lt_now v now =
     map_option (\<lambda>n. case n of Fin q \<Rightarrow> q < of_int now | NInf \<Rightarrow> True | _ \<Rightarrow> False) (js_to_number v)"

subsection \<open>\<^verbatim>\<open>JSON.stringify\<close> and \<^verbatim>\<open>split\<close>\<close>

definition hex_digit :: "nat \<Rightarrow> char" where
  "hex_digit d = ''0123456789abcdef'' ! d"

definition quote_char :: "char \<Rightarrow> string" where
  "quote_char c =
     (if c = dquote then [backslash, dquote]
      else if c = backslash then [backslash, backslash]
      else if c = CHR 0x08 then [backslash, CHR ''b'']
      else if c = CHR 0x09 then [backslash, CHR ''t'']
      else if c = CHR 0x0A then [backslash, CHR ''n'']
      else if c = CHR 0x0C then [backslash, CHR ''f'']
      else if c = CHR 0x0D then [backslash, CHR ''r'']
      else if char_code c < 32
        then [backslash, CHR ''u'', CHR ''0'', CHR ''0'',
              hex_digit (char_code c div 16), hex_digit (char_code c mod 16)]
      else [c])"

definition quote_string :: "string \<Rightarrow> string" where
  \<comment> \<open>\<^verbatim>\<open>QuoteJSONString\<close>\<close>
  "quote_string s = dquote # concat (map quote_char s) @ [dquote]"

fun JSON_stringify :: "jsval \<Rightarrow> string option" where
  \<comment> \<open>\<open>None\<close> is the result \<^verbatim>\<open>undefined\<close>. A member whose value is \<^verbatim>\<open>undefined\<close> is left
      out of an object and printed as \<^verbatim>\<open>null\<close> in an array. Members are printed in the
      order of the list, which is the order of an object literal whose keys are no array
      indices (the payload's are \<^verbatim>\<open>sessionId\<close>, \<^verbatim>\<open>scanType\<close>, \<^verbatim>\<open>timestamp\<close>, \<^verbatim>\<open>expiry\<close>).\<close>
  "JSON_stringify JUndefined = None"
| "JSON_stringify JNull = Some ''null''"
| "JSON_stringify (JBool b) = Some (if b then ''true'' else ''false'')"
| "JSON_stringify (JNum n) = Some (case n of Fin q \<Rightarrow> number_to_string n | _ \<Rightarrow> ''null'')"
| "JSON_stringify (JStr s) = Some (quote_string s)"
| "JSON_stringify (JArr vs) =
     Some (''['' @ join_strings (map (\<lambda>v. case JSON_stringify v of None \<Rightarrow> ''null'' | Some t \<Rightarrow> t) vs) @ '']'')"
| "JSON_stringify (JObj ms) =
     Some (''{'' @ join_strings
              (concat (map (\<lambda>(k, v). case JSON_stringify v of
                                        None \<Rightarrow> []
                                      | Some t \<Rightarrow> [quote_string k @ '':'' @ t]) ms)) @ ''}'')"

fun split_on :: "char \<Rightarrow> string \<Rightarrow> string list" where
  \<comment> \<open>\<^verbatim>\<open>s.split(c)\<close> for a one-character separator: every occurrence cuts\<close>
  "split_on c [] = [[]]"
| "split_on c (x # xs) =
     (if x = c then [] # split_on c xs
      else (case split_on c xs of
              [] \<Rightarrow> [[x]]
            | w # ws \<Rightarrow> (x # w) # ws))"

section \<open>The geofence\<close>

text \<open>
  \<^verbatim>\<open>calculateDistance\<close> is the haversine formula, written twice in the source with the
  same body (a private method of \<^verbatim>\<open>MockDatabase\<close> and a helper of the edge function).
  Its arithmetic is double arithmetic with \<^verbatim>\<open>Math.sin\<close>, \<^verbatim>\<open>Math.cos\<close>, \<^verbatim>\<open>Math.sqrt\<close> and
  \<^verbatim>\<open>Math.atan2\<close>, whose results the language leaves to the implementation. The model
  computes over the reals instead. It serves the handlers, which only branch on the
  outcome of the comparison; it says nothing about the last bits of a distance, and a
  coordinate is always a number (never \<^verbatim>\<open>NaN\<close>).
\<close>

definition atan2 :: "real \<Rightarrow> real \<Rightarrow> real" where
  \<comment> \<open>\<^verbatim>\<open>Math.atan2(y, x)\<close>\<close>
  "atan2 y x =
     (if 0 < x then arctan (y / x)
      else if x < 0 \<and> 0 \<le> y then arctan (y / x) + pi
      else if x < 0 \<and> y < 0 then arctan (y / x) - pi
      else if 0 < y then pi / 2
      else if y < 0 then - (pi / 2)
      else 0)"

definition calculateDistance :: "real \<Rightarrow> real \<Rightarrow> real \<Rightarrow> real \<Rightarrow> real" where
  "calculateDistance lat1 lng1 lat2 lng2 =
     (let R = 6371000;
          phi1 = lat1 * pi / 180;
          phi2 = lat2 * pi / 180;
          dphi = (lat2 - lat1) * pi / 180;
          dlambda = (lng2 - lng1) * pi / 180;
          a = sin (dphi / 2) * sin (dphi / 2) +
              cos phi1 * cos phi2 * sin (dlambda / 2) * sin (dlambda / 2);
          c = 2 * atan2 (sqrt a) (sqrt (1 - a))
      in R * c)"

record campus_boundary =
  lat :: real
  lng :: real
  radius :: real

definition CAMPUS_BOUNDARY :: campus_boundary where
  "CAMPUS_BOUNDARY = \<lparr>lat = 22.3039, lng = 73.3620, radius = 2000\<rparr>"

definition isWithinCampus :: "real \<Rightarrow> real \<Rightarrow> bool" where
  "isWithinCampus la lo =
     (let distance = calculateDistance la lo (lat CAMPUS_BOUNDARY) (lng CAMPUS_BOUNDARY)
      in distance \<le> radius CAMPUS_BOUNDARY)"

section \<open>QR tokens\<close>

text \<open>
  \<^verbatim>\<open>crypto.createHmac('sha256', key).update(text).digest('hex')\<close> is a parameter of the
  model: a function from key and text to the digest. \<^verbatim>\<open>Date.now()\<close> is a number of
  milliseconds, an integer far below \<open>2 ^ 53\<close>, so that adding the validity window is
  exact; every reading of the clock is an argument of the function that takes it.
\<close>

type_synonym hmac = "string \<Rightarrow> string \<Rightarrow> string"

definition JWT_SECRET :: string where
  "JWT_SECRET = ''university-attendance-secret-key''"

datatype scan_type = IN | OUT

fun scan_type_name :: "scan_type \<Rightarrow> string" where
  "scan_type_name IN = ''IN''"
| "scan_type_name OUT = ''OUT''"

definition js_int :: "int \<Rightarrow> jsval" where
  "js_int n = JNum (Fin (of_int n))"

definition qr_payload :: "string \<Rightarrow> string \<Rightarrow> int \<Rightarrow> int \<Rightarrow> jsval" where
  \<comment> \<open>the object literal \<^verbatim>\<open>{ sessionId, scanType, timestamp, expiry }\<close>\<close>
  "qr_payload sessionId scanType timestamp expiry =
     JObj [(''sessionId'', JStr sessionId), (''scanType'', JStr scanType),
           (''timestamp'', js_int timestamp), (''expiry'', js_int expiry)]"

definition stringify_object :: "jsval \<Rightarrow> string" where
  \<comment> \<open>\<^verbatim>\<open>JSON.stringify\<close> where the argument is an object, so that the result is a string\<close>
  "stringify_object v = (case JSON_stringify v of Some t \<Rightarrow> t | None \<Rightarrow> ''undefined'')"

definition generateQRToken :: "hmac \<Rightarrow> string \<Rightarrow> scan_type \<Rightarrow> int \<Rightarrow> int \<Rightarrow> string \<times> string" where
  \<comment> \<open>\<open>now1\<close>, \<open>now2\<close>: the two readings of the clock, for \<^verbatim>\<open>timestamp\<close> and \<^verbatim>\<open>expiry\<close>\<close>
  "generateQRToken h sessionId scanType now1 now2 =
     (let payload = qr_payload sessionId (scan_type_name scanType) now1 (now2 + 30 * 60 * 1000);
          token = stringify_object payload;
          signature = h JWT_SECRET token
      in (token, signature))"

definition verifyQRToken :: "hmac \<Rightarrow> int \<Rightarrow> string \<Rightarrow> string option \<Rightarrow> jsval" where
  \<comment> \<open>the result is the payload or \<^verbatim>\<open>false\<close>; a signature \<open>None\<close> is \<^verbatim>\<open>undefined\<close>. The
      \<^verbatim>\<open>try\<close> block turns a \<^verbatim>\<open>SyntaxError\<close> and a \<^verbatim>\<open>TypeError\<close> into \<^verbatim>\<open>false\<close>.\<close>
  "verifyQRToken h now token signature =
     (let expectedSignature = h JWT_SECRET token
      in if signature \<noteq> Some expectedSignature then JBool False
         else (case JSON_parse token of
                 None \<Rightarrow> JBool False
               | Some payload \<Rightarrow>
                   (case js_get payload ''expiry'' of
                      None \<Rightarrow> JBool False
                    | Some expiry \<Rightarrow>
                        (case js_gt_now expiry now of
                           None \<Rightarrow> JBool False
                         | Some later \<Rightarrow> if later then payload else JBool False))))"

definition split_qr :: "string \<Rightarrow> string \<times> string option" where
  \<comment> \<open>\<^verbatim>\<open>const [token, signature] = qrData.split(':')\<close>: the first two pieces, the second
      \<^verbatim>\<open>undefined\<close> if there is no colon\<close>
  "split_qr qrData =
     (case split_on (CHR '':'') qrData of
        [] \<Rightarrow> ([], None)
      | [token] \<Rightarrow> (token, None)
      | token # signature # _ \<Rightarrow> (token, Some signature))"

definition wire :: "string \<times> string \<Rightarrow> string" where
  \<comment> \<open>the template literal that joins token and signature with a colon\<close>
  "wire t = fst t @ '':'' @ snd t"

section \<open>Records and stores\<close>

record Session =
  s_id :: string
  s_subjectId :: string
  s_facultyId :: string
  s_date :: string
  startTime :: "string option"
  inGenerationTs :: string
  outGenerationTs :: "string option"
  inQrToken :: "string option"
  inQrSignature :: "string option"
  outQrToken :: "string option"
  outQrSignature :: "string option"
  status :: string

record AttendanceRecord =
  a_id :: string
  a_sessionId :: jsval
  a_studentId :: string
  a_subjectId :: string
  inScanTs :: "string option"
  outScanTs :: "string option"
  inScanLocation :: "(real \<times> real) option"
  outScanLocation :: "(real \<times> real) option"

record Subject =
  sub_id :: string
  sub_name :: string
  sub_code :: string
  sub_facultyId :: string

record User =
  u_id :: string
  u_name :: string
  u_role :: string
  u_password :: "string option"

record current_user =
  \<comment> \<open>the claims of the verified bearer token, \<^verbatim>\<open>c.get('user')\<close>\<close>
  cu_id :: string
  cu_role :: string

datatype api_error =
    StudentAccessRequired       \<comment> \<open>403 \<^verbatim>\<open>Student access required\<close>\<close>
  | FacultyAccessRequired       \<comment> \<open>403 \<^verbatim>\<open>Faculty access required\<close>\<close>
  | Unauthorized                \<comment> \<open>403 \<^verbatim>\<open>Unauthorized\<close>\<close>
  | OutsideCampusBoundary       \<comment> \<open>400 \<^verbatim>\<open>Scan location is outside campus boundary\<close>, thrown by the mock\<close>
  | InvalidOrExpiredQR          \<comment> \<open>400 \<^verbatim>\<open>Invalid or expired QR code\<close>, edge function only\<close>
  | InvalidQRFormat             \<comment> \<open>\<^verbatim>\<open>Invalid QR code format\<close>, mock only\<close>
  | QRExpired                   \<comment> \<open>\<^verbatim>\<open>QR code has expired\<close>, mock only\<close>
  | SessionNotFound             \<comment> \<open>404 \<^verbatim>\<open>Session not found\<close>, thrown by the mock\<close>
  | StudentNotFound             \<comment> \<open>404 \<^verbatim>\<open>Student not found\<close>, thrown by the mock\<close>
  | FailedToRecordAttendance    \<comment> \<open>500, the \<^verbatim>\<open>catch\<close> of the scan route\<close>
  | FailedToFetchProfile        \<comment> \<open>500, the \<^verbatim>\<open>catch\<close> of the profile route\<close>
  | UncaughtTypeError           \<comment> \<open>a \<^verbatim>\<open>TypeError\<close> that leaves a method of the mock\<close>

record scan_response =
  success :: bool
  message :: string
  attendance :: AttendanceRecord


text \<open>
  A \<^verbatim>\<open>Map\<close> of the mock is an association list in insertion order: \<^verbatim>\<open>get\<close> is
  \<^const>\<open>map_of\<close>, \<^verbatim>\<open>set\<close> is \<^const>\<open>AList.update\<close> (an existing key keeps its place, a new one
  goes to the end), \<^verbatim>\<open>values()\<close> is the list of second components.
\<close>

record mock_db =
  db_users :: "(string \<times> User) list"
  db_subjects :: "(string \<times> Subject) list"
  db_sessions :: "(string \<times> Session) list"
  db_attendance :: "(string \<times> AttendanceRecord) list"

text \<open>
  Modelled from the spec: \<^verbatim>\<open>kv_store.tsx\<close>, which the edge function imports, is not among
  the sources. The specification describes it as a passive key-value collaborator with
  get, set and get-by-prefix, holding session records under keys \<^verbatim>\<open>session:<sessionId>\<close>
  and attendance records under \<^verbatim>\<open>attendance:<studentId>:<sessionId>\<close>. The model keeps one
  association list for each kind of record, keyed by the whole key.
\<close>

record kv_store =
  kv_students :: "(string \<times> User) list"
  kv_subjects :: "(string \<times> Subject) list"
  kv_sessions :: "(string \<times> Session) list"
  kv_attendance :: "(string \<times> AttendanceRecord) list"

definition kv_get :: "(string \<times> 'v) list \<Rightarrow> string \<Rightarrow> 'v option" where
  "kv_get store key = map_of store key"

definition kv_set :: "string \<Rightarrow> 'v \<Rightarrow> (string \<times> 'v) list \<Rightarrow> (string \<times> 'v) list" where
  "kv_set key v store = AList.update key v store"



section \<open>Recording a scan\<close>

definition new_record :: "string \<Rightarrow> jsval \<Rightarrow> string \<Rightarrow> string \<Rightarrow> AttendanceRecord" where
  \<comment> \<open>the object literal \<^verbatim>\<open>{ id, sessionId, studentId, subjectId }\<close> that stands in when
      the store has no record under the key; it has no scan field yet\<close>
  "new_record rid sessionId studentId subjectId =
     \<lparr>a_id = rid, a_sessionId = sessionId, a_studentId = studentId, a_subjectId = subjectId,
      inScanTs = None, outScanTs = None, inScanLocation = None, outScanLocation = None\<rparr>"

definition apply_scan :: "jsval \<Rightarrow> string \<Rightarrow> real \<times> real \<Rightarrow> AttendanceRecord \<Rightarrow> AttendanceRecord" where
  \<comment> \<open>the \<^verbatim>\<open>if (scanType === 'IN') ... else ...\<close> of both backends\<close>
  "apply_scan scanType timestamp location a =
     (if scanType = JStr ''IN''
      then a\<lparr>inScanTs := Some timestamp, inScanLocation := Some location\<rparr>
      else a\<lparr>outScanTs := Some timestamp, outScanLocation := Some location\<rparr>)"

definition scan_reply :: "jsval \<Rightarrow> AttendanceRecord \<Rightarrow> scan_response option" where
  \<comment> \<open>the object returned at the end; its message prints \<^verbatim>\<open>scanType\<close>, which can throw\<close>
  "scan_reply scanType a =
     map_option (\<lambda>t. \<lparr>success = True, message = t @ '' scan recorded successfully'', attendance = a\<rparr>)
       (js_to_string scanType)"

definition record_scan ::
  "kv_store \<Rightarrow> current_user \<Rightarrow> jsval \<Rightarrow> real \<Rightarrow> real \<Rightarrow> string \<Rightarrow> (api_error + scan_response) \<times> kv_store" where
  \<comment> \<open>the scan route from \<^verbatim>\<open>const { sessionId, scanType } = qrPayload\<close> on; \<open>timestamp\<close> is
      \<^verbatim>\<open>new Date().toISOString()\<close>\<close>
  "record_scan kv currentUser qrPayload la lo timestamp =
     (case (js_get qrPayload ''sessionId'', js_get qrPayload ''scanType'') of
        (Some sessionId, Some scanType) \<Rightarrow>
          (case js_to_string sessionId of
             None \<Rightarrow> (Inl FailedToRecordAttendance, kv)
           | Some sid \<Rightarrow>
               (case kv_get (kv_sessions kv) (''session:'' @ sid) of
                  None \<Rightarrow> (Inl SessionNotFound, kv)
                | Some session \<Rightarrow>
                    (let attendanceKey = ''attendance:'' @ cu_id currentUser @ '':'' @ sid;
                         found = (case kv_get (kv_attendance kv) attendanceKey of
                                    Some a \<Rightarrow> a
                                  | None \<Rightarrow>
                                      new_record (cu_id currentUser @ '':'' @ sid) sessionId
                                        (cu_id currentUser) (s_subjectId session));
                         updated = apply_scan scanType timestamp (la, lo) found;
                         kv' = kv\<lparr>kv_attendance := kv_set attendanceKey updated (kv_attendance kv)\<rparr>
                     in (case scan_reply scanType updated of
                           None \<Rightarrow> (Inl FailedToRecordAttendance, kv')
                         | Some r \<Rightarrow> (Inr r, kv')))))
      | _ \<Rightarrow> (Inl FailedToRecordAttendance, kv))"

definition verify_and_record ::
  "hmac \<Rightarrow> kv_store \<Rightarrow> current_user \<Rightarrow> string \<Rightarrow> string option \<Rightarrow> real \<Rightarrow> real \<Rightarrow> int \<Rightarrow> string
     \<Rightarrow> (api_error + scan_response) \<times> kv_store" where
  \<comment> \<open>the scan route from \<^verbatim>\<open>const qrPayload = verifyQRToken(token, signature)\<close> on\<close>
  "verify_and_record h kv currentUser token signature la lo now timestamp =
     (let qrPayload = verifyQRToken h now token signature
      in if \<not> js_truthy qrPayload then (Inl InvalidOrExpiredQR, kv)
         else record_scan kv currentUser qrPayload la lo timestamp)"

definition scan_route ::
  "hmac \<Rightarrow> kv_store \<Rightarrow> current_user \<Rightarrow> string \<Rightarrow> real \<Rightarrow> real \<Rightarrow> int \<Rightarrow> string
     \<Rightarrow> (api_error + scan_response) \<times> kv_store" where
  \<comment> \<open>\<^verbatim>\<open>app.post('/make-server-adf12d42/attendance/scan')\<close>, after \<^verbatim>\<open>requireAuth\<close>\<close>
  "scan_route h kv currentUser qrData la lo now timestamp =
     (if cu_role currentUser \<noteq> ''student'' then (Inl StudentAccessRequired, kv)
      else if \<not> isWithinCampus la lo then (Inl OutsideCampusBoundary, kv)
      else (let (token, signature) = split_qr qrData
            in verify_and_record h kv currentUser token signature la lo now timestamp))"

definition mock_session :: "mock_db \<Rightarrow> jsval \<Rightarrow> Session option" where
  \<comment> \<open>\<^verbatim>\<open>this.sessions.get(sessionId)\<close>: the keys are strings, another value finds nothing\<close>
  "mock_session db sessionId =
     (case sessionId of JStr sid \<Rightarrow> map_of (db_sessions db) sid | _ \<Rightarrow> None)"

definition mock_record_scan ::
  "mock_db \<Rightarrow> string \<Rightarrow> jsval \<Rightarrow> real \<Rightarrow> real \<Rightarrow> string \<Rightarrow> (api_error + scan_response) \<times> mock_db" where
  \<comment> \<open>\<^verbatim>\<open>scanAttendance\<close> from \<^verbatim>\<open>const { sessionId, scanType } = qrPayload\<close> on\<close>
  "mock_record_scan db studentId qrPayload la lo timestamp =
     (case (js_get qrPayload ''sessionId'', js_get qrPayload ''scanType'') of
        (Some sessionId, Some scanType) \<Rightarrow>
          (case mock_session db sessionId of
             None \<Rightarrow> (Inl SessionNotFound, db)
           | Some session \<Rightarrow>
               (case js_to_string sessionId of
                  None \<Rightarrow> (Inl UncaughtTypeError, db)
                | Some sid \<Rightarrow>
                    (let attendanceKey = studentId @ '':'' @ sid;
                         found = (case map_of (db_attendance db) attendanceKey of
                                    Some a \<Rightarrow> a
                                  | None \<Rightarrow>
                                      new_record attendanceKey sessionId studentId
                                        (s_subjectId session));
                         updated = apply_scan scanType timestamp (la, lo) found;
                         db' = db\<lparr>db_attendance := AList.update attendanceKey updated (db_attendance db)\<rparr>
                     in (case scan_reply scanType updated of
                           None \<Rightarrow> (Inl UncaughtTypeError, db')
                         | Some r \<Rightarrow> (Inr r, db')))))
      | _ \<Rightarrow> (Inl UncaughtTypeError, db))"

definition mock_check_and_record ::
  "mock_db \<Rightarrow> string \<Rightarrow> string \<Rightarrow> real \<Rightarrow> real \<Rightarrow> int \<Rightarrow> string
     \<Rightarrow> (api_error + scan_response) \<times> mock_db" where
  \<comment> \<open>\<^verbatim>\<open>scanAttendance\<close> from \<^verbatim>\<open>JSON.parse(token)\<close> on; there is no signature to look at\<close>
  "mock_check_and_record db studentId token la lo now timestamp =
     (case JSON_parse token of
        None \<Rightarrow> (Inl InvalidQRFormat, db)
      | Some qrPayload \<Rightarrow>
          (case js_get qrPayload ''expiry'' of
             None \<Rightarrow> (Inl UncaughtTypeError, db)
           | Some expiry \<Rightarrow>
               (case js_lt_now expiry now of
                  None \<Rightarrow> (Inl UncaughtTypeError, db)
                | Some expired \<Rightarrow>
                    if expired then (Inl QRExpired, db)
                    else mock_record_scan db studentId qrPayload la lo timestamp)))"

definition scanAttendance ::
  "mock_db \<Rightarrow> string \<Rightarrow> string \<Rightarrow> real \<Rightarrow> real \<Rightarrow> int \<Rightarrow> string
     \<Rightarrow> (api_error + scan_response) \<times> mock_db" where
  \<comment> \<open>\<^verbatim>\<open>MockDatabase.scanAttendance\<close>; the signature piece of the split is never read\<close>
  "scanAttendance db studentId qrData la lo now timestamp =
     (let campusLat = 22.3039; campusLng = 73.3620; maxDistance = 2000;
          distance = calculateDistance la lo campusLat campusLng
      in if maxDistance < distance then (Inl OutsideCampusBoundary, db)
         else (let (token, signature) = split_qr qrData
               in mock_check_and_record db studentId token la lo now timestamp))"

section \<open>Creating a session and issuing the OUT token\<close>

definition or_else :: "string option \<Rightarrow> string \<Rightarrow> string" where
  \<comment> \<open>\<^verbatim>\<open>startTime || fallback\<close>: an absent or empty string is falsy\<close>
  "or_else v fallback = (case v of None \<Rightarrow> fallback | Some t \<Rightarrow> if t = [] then fallback else t)"

definition new_session_id :: "string \<Rightarrow> int \<Rightarrow> string" where
  \<comment> \<open>the template literal of subject and \<^verbatim>\<open>Date.now()\<close>\<close>
  "new_session_id subjectId now = subjectId @ '':'' @ number_to_string (Fin (of_int now))"

definition session_route ::
  "hmac \<Rightarrow> kv_store \<Rightarrow> current_user \<Rightarrow> string \<Rightarrow> string \<Rightarrow> string option
     \<Rightarrow> int \<Rightarrow> int \<Rightarrow> int \<Rightarrow> string \<Rightarrow> string \<Rightarrow> (api_error + string \<times> string) \<times> kv_store" where
  \<comment> \<open>\<^verbatim>\<open>app.post('/make-server-adf12d42/faculty/session')\<close>; the result is
      \<^verbatim>\<open>{ sessionId, inQrData }\<close>. Clock: \<open>now0\<close> for the id, \<open>now1\<close> and \<open>now2\<close> in
      \<^verbatim>\<open>generateQRToken\<close>, \<open>stamp1\<close> and \<open>stamp2\<close> the two \<^verbatim>\<open>new Date().toISOString()\<close>.\<close>
  "session_route h kv currentUser subjectId date start now0 now1 now2 stamp1 stamp2 =
     (if cu_role currentUser \<noteq> ''faculty'' then (Inl FacultyAccessRequired, kv)
      else (let sessionId = new_session_id subjectId now0;
                inQRData = generateQRToken h sessionId IN now1 now2;
                session = \<lparr>s_id = sessionId, s_subjectId = subjectId,
                           s_facultyId = cu_id currentUser, s_date = date,
                           startTime = Some (or_else start stamp1),
                           inGenerationTs = stamp2, outGenerationTs = None,
                           inQrToken = Some (fst inQRData), inQrSignature = Some (snd inQRData),
                           outQrToken = None, outQrSignature = None,
                           status = ''active''\<rparr>
            in (Inr (sessionId, wire inQRData),
                kv\<lparr>kv_sessions := kv_set (''session:'' @ sessionId) session (kv_sessions kv)\<rparr>)))"

definition generate_out_route ::
  "hmac \<Rightarrow> kv_store \<Rightarrow> current_user \<Rightarrow> string \<Rightarrow> int \<Rightarrow> int \<Rightarrow> string
     \<Rightarrow> (api_error + string) \<times> kv_store" where
  \<comment> \<open>\<^verbatim>\<open>app.post('/make-server-adf12d42/faculty/session/:id/generate-out')\<close>; the result is
      \<^verbatim>\<open>outQrData\<close>\<close>
  "generate_out_route h kv currentUser sessionId now1 now2 stamp =
     (if cu_role currentUser \<noteq> ''faculty'' then (Inl FacultyAccessRequired, kv)
      else (case kv_get (kv_sessions kv) (''session:'' @ sessionId) of
              None \<Rightarrow> (Inl SessionNotFound, kv)
            | Some session \<Rightarrow>
                if s_facultyId session \<noteq> cu_id currentUser then (Inl SessionNotFound, kv)
                else (let outQRData = generateQRToken h sessionId OUT now1 now2;
                          session' = session\<lparr>outGenerationTs := Some stamp,
                                             outQrToken := Some (fst outQRData),
                                             outQrSignature := Some (snd outQRData)\<rparr>
                      in (Inr (wire outQRData),
                          kv\<lparr>kv_sessions := kv_set (''session:'' @ sessionId) session' (kv_sessions kv)\<rparr>))))"

definition mock_qr :: "string \<Rightarrow> string \<Rightarrow> int \<Rightarrow> int \<Rightarrow> int \<Rightarrow> string" where
  \<comment> \<open>the QR data of the mock: the payload and \<^verbatim>\<open>'mock-signature-' + Date.now()\<close>\<close>
  "mock_qr sessionId scanType now1 now2 now3 =
     (let qrToken = stringify_object (qr_payload sessionId scanType now1 (now2 + 30 * 60 * 1000));
          signature = ''mock-signature-'' @ number_to_string (Fin (of_int now3))
      in wire (qrToken, signature))"

definition createSession ::
  "mock_db \<Rightarrow> string \<Rightarrow> string \<Rightarrow> string \<Rightarrow> string option
     \<Rightarrow> int \<Rightarrow> string \<Rightarrow> int \<Rightarrow> int \<Rightarrow> int \<Rightarrow> (string \<times> string) \<times> mock_db" where
  \<comment> \<open>\<^verbatim>\<open>MockDatabase.createSession\<close>; the result is \<^verbatim>\<open>{ sessionId, inQrData }\<close>\<close>
  "createSession db facultyId subjectId date start now0 stamp now1 now2 now3 =
     (let sessionId = new_session_id subjectId now0;
          session = \<lparr>s_id = sessionId, s_subjectId = subjectId, s_facultyId = facultyId,
                     s_date = date, startTime = None,
                     inGenerationTs = or_else start stamp, outGenerationTs = None,
                     inQrToken = None, inQrSignature = None,
                     outQrToken = None, outQrSignature = None,
                     status = ''active''\<rparr>
      in ((sessionId, mock_qr sessionId ''IN'' now1 now2 now3),
          db\<lparr>db_sessions := AList.update sessionId session (db_sessions db)\<rparr>))"

definition generateOutQR ::
  "mock_db \<Rightarrow> string \<Rightarrow> int \<Rightarrow> int \<Rightarrow> int \<Rightarrow> string \<Rightarrow> (api_error + string) \<times> mock_db" where
  \<comment> \<open>\<^verbatim>\<open>MockDatabase.generateOutQR\<close>; the result is \<^verbatim>\<open>outQrData\<close>\<close>
  "generateOutQR db sessionId now1 now2 now3 stamp =
     (case map_of (db_sessions db) sessionId of
        None \<Rightarrow> (Inl SessionNotFound, db)
      | Some session \<Rightarrow>
          (Inr (mock_qr sessionId ''OUT'' now1 now2 now3),
           db\<lparr>db_sessions :=
                 AList.update sessionId (session\<lparr>outGenerationTs := Some stamp\<rparr>) (db_sessions db)\<rparr>))"

section \<open>The attendance summary\<close>



definition attendance_percentage :: "nat \<Rightarrow> nat \<Rightarrow> int" where
  \<comment> \<open>\<^verbatim>\<open>totalSessions > 0 ? Math.round((attendedSessions / totalSessions) * 100) : 0\<close>, the
      quotient and the product each rounded to a double\<close>
  "attendance_percentage n_total n_attended =
     (if 0 < n_total
      then Math_round (round_double (round_double (of_nat n_attended / of_nat n_total) * 100))
      else 0)"










section \<open>Sample data\<close>

text \<open>
  The data of the examples below: the first student, faculty member and subject of
  \<^verbatim>\<open>initializeData\<close>, one session of that subject, and a token for it issued at millisecond
  1000. The digest function of the examples returns one fixed digest; the theorems hold
  for every digest function.
\<close>

definition demo_hmac :: hmac where
  "demo_hmac key text = ''9b74c9897bac770ffc029102a200c5de''"

definition demo_token :: string where
  \<open>demo_token = ''{"sessionId":"SUB001:1000","scanType":"IN","timestamp":1000,"expiry":1801000}''\<close>

definition demo_out_token :: string where
  \<open>demo_out_token = ''{"sessionId":"SUB001:1000","scanType":"OUT","timestamp":2000,"expiry":1802000}''\<close>

definition demo_student :: current_user where
  "demo_student = \<lparr>cu_id = ''STU001'', cu_role = ''student''\<rparr>"

definition demo_faculty :: current_user where
  "demo_faculty = \<lparr>cu_id = ''FAC001'', cu_role = ''faculty''\<rparr>"

definition demo_other_faculty :: current_user where
  "demo_other_faculty = \<lparr>cu_id = ''FAC002'', cu_role = ''faculty''\<rparr>"

definition demo_user :: User where
  "demo_user = \<lparr>u_id = ''STU001'', u_name = ''Arjun Patel'', u_role = ''student'',
                 u_password = Some ''student123''\<rparr>"

definition demo_subject :: Subject where
  "demo_subject = \<lparr>sub_id = ''SUB001'', sub_name = ''Data Structures'', sub_code = ''CS301'',
                    sub_facultyId = ''FAC001''\<rparr>"

definition demo_session :: Session where
  "demo_session = \<lparr>s_id = ''SUB001:1000'', s_subjectId = ''SUB001'', s_facultyId = ''FAC001'',
                    s_date = ''2024-01-15'', startTime = None,
                    inGenerationTs = ''2024-01-15T09:00:00.000Z'', outGenerationTs = None,
                    inQrToken = None, inQrSignature = None, outQrToken = None,
                    outQrSignature = None, status = ''active''\<rparr>"

definition demo_kv :: kv_store where
  "demo_kv = \<lparr>kv_students = [(''student:STU001'', demo_user)],
               kv_subjects = [(''subject:SUB001'', demo_subject)],
               kv_sessions = [(''session:SUB001:1000'', demo_session)],
               kv_attendance = []\<rparr>"

definition demo_db :: mock_db where
  "demo_db = \<lparr>db_users = [(''STU001'', demo_user)],
               db_subjects = [(''SUB001'', demo_subject)],
               db_sessions = [(''SUB001:1000'', demo_session)],
               db_attendance = []\<rparr>"

definition demo_sig :: string where
  "demo_sig = demo_hmac JWT_SECRET demo_token"











section \<open>Evaluation\<close>

text \<open>
  The recursive number functions unfold on numerals only, so that the simplifier
  evaluates them and stops.
\<close>

lemma ilog2_int_numeral:
  "ilog2_int (numeral k) = (if (numeral k :: int) \<le> 1 then 0 else 1 + ilog2_int (numeral k div 2))"
  "ilog2_int 1 = 0" "ilog2_int 0 = 0"
  by (simp_all add: ilog2_int.simps)

lemma ilog10_int_numeral:
  "ilog10_int (numeral k) = (if (numeral k :: int) < 10 then 0 else 1 + ilog10_int (numeral k div 10))"
  "ilog10_int 1 = 0" "ilog10_int 0 = 0"
  by (simp_all add: ilog10_int.simps)

lemma digits_of_numeral:
  "digits_of (numeral k) =
     (if (numeral k :: int) < 10 then [digit_char (numeral k)]
      else digits_of (numeral k div 10) @ [digit_char (numeral k mod 10)])"
  "digits_of 1 = [digit_char 1]" "digits_of 0 = [digit_char 0]"
  by (simp_all add: digits_of.simps)

lemmas double_eval = to_double_def round_double_def round_double_pos_def ilog2_def pow2_def
  round_half_even_def Let_def ilog2_int_numeral

lemmas parse_eval = JSON_parse_def parse_step_def close_array_def close_object_def open_key_def
  next_member_def lex_plain_def lex_flush_def json_number_def json_word_def is_json_ws_def
  is_number_char_def is_lower_def escape_char_def is_digit_def digit_val_def hex_val_def
  digits_value_def decimal_value_def take_sign_def take_exponent_def decimal_rat_def pow10_def
  char_code_def dquote_def backslash_def

lemmas print_eval = stringify_object_def qr_payload_def js_int_def quote_string_def quote_char_def
  number_to_string_def positive_to_string_def number_layout_def digits_at_def rounds_to_def
  ilog10_def ilog10_int_numeral digits_of_numeral digit_char_def pow10_def char_code_def
  dquote_def backslash_def eval_nat_numeral

lemma parse_demo_token:
  "JSON_parse demo_token = Some (qr_payload ''SUB001:1000'' ''IN'' 1000 1801000)"
  by (simp add: demo_token_def parse_eval double_eval qr_payload_def js_int_def)

lemma parse_demo_out_token:
  "JSON_parse demo_out_token = Some (qr_payload ''SUB001:1000'' ''OUT'' 2000 1802000)"
  by (simp add: demo_out_token_def parse_eval double_eval qr_payload_def js_int_def)

lemma print_demo_token:
  "stringify_object (qr_payload ''SUB001:1000'' ''IN'' 1000 1801000) = demo_token"
  by (simp add: demo_token_def print_eval double_eval)

lemma print_demo_out_token:
  "stringify_object (qr_payload ''SUB001:1000'' ''OUT'' 2000 1802000) = demo_out_token"
  by (simp add: demo_out_token_def print_eval double_eval)

lemma generate_demo_token:
  "generateQRToken h ''SUB001:1000'' IN 1000 1000 = (demo_token, h JWT_SECRET demo_token)"
  by (simp add: generateQRToken_def print_demo_token Let_def)

lemma generate_demo_out_token:
  "generateQRToken h ''SUB001:1000'' OUT 2000 2000 = (demo_out_token, h JWT_SECRET demo_out_token)"
  by (simp add: generateQRToken_def print_demo_out_token Let_def)

lemma parse_first_piece: \<open>JSON_parse ''{"sessionId"'' = None\<close>
  by (simp add: parse_eval)

section \<open>The geofence at two points\<close>

lemma distance_same_point: "calculateDistance la lo la lo = 0"
  by (simp add: calculateDistance_def atan2_def)

lemma within_campus_centre: "isWithinCampus 22.3039 73.3620"
  by (simp add: isWithinCampus_def CAMPUS_BOUNDARY_def distance_same_point)




lemma mock_geofence:
  "(2000 < calculateDistance la lo 22.3039 73.3620) = (\<not> isWithinCampus la lo)"
  by (auto simp: isWithinCampus_def CAMPUS_BOUNDARY_def)

section \<open>Tokens: the split, the payload, the signature\<close>

lemma split_on_nonempty: "split_on c s \<noteq> []"
  by (induction s) (auto split: list.splits)

lemma split_on_first: "c \<notin> set xs \<Longrightarrow> split_on c (xs @ c # ys) = xs # split_on c ys"
  by (induction xs) (auto split: list.splits)

lemma split_qr_first:
  "CHR '':'' \<notin> set xs \<Longrightarrow> \<exists>sg. split_qr (xs @ CHR '':'' # ys) = (xs, Some sg)"
  using split_on_nonempty [of "CHR '':''" ys]
  by (cases "split_on (CHR '':'') ys") (auto simp: split_qr_def split_on_first)

lemma split_qr_token: "fst (split_qr s) = takeWhile (\<lambda>x. x \<noteq> CHR '':'') s"
proof -
  have "\<exists>ws. split_on (CHR '':'') s = takeWhile (\<lambda>x. x \<noteq> CHR '':'') s # ws"
    by (induction s) (auto split: list.splits)
  then show ?thesis
    by (auto simp: split_qr_def split: list.splits)
qed

lemma split_qr_ignores_signature:
  "fst (split_qr (token @ '':'' @ sig1)) = fst (split_qr (token @ '':'' @ sig2))"
proof -
  have "takeWhile (\<lambda>x. x \<noteq> CHR '':'') (token @ CHR '':'' # s)
          = takeWhile (\<lambda>x. x \<noteq> CHR '':'') token" for s
    by (induction token) auto
  then show ?thesis
    by (simp add: split_qr_token)
qed

text \<open>The text of a payload starts with its first key, and a colon follows.\<close>

lemma payload_text:
  \<open>\<exists>rest. stringify_object (qr_payload sessionId scanType t e) = ''{"sessionId"'' @ CHR '':'' # rest\<close>
  by (simp add: stringify_object_def qr_payload_def js_int_def quote_string_def quote_char_def
      char_code_def dquote_def backslash_def)

lemma split_fresh_payload:
  \<open>\<exists>sg. split_qr (stringify_object (qr_payload sessionId scanType t e) @ CHR '':'' # signature)
          = (''{"sessionId"'', Some sg)\<close>
proof -
  obtain rest where r:
    \<open>stringify_object (qr_payload sessionId scanType t e) = ''{"sessionId"'' @ CHR '':'' # rest\<close>
    using payload_text by blast
  have \<open>CHR '':'' \<notin> set ''{"sessionId"''\<close> by simp
  from split_qr_first [OF this, of "rest @ CHR '':'' # signature"] show ?thesis
    by (simp add: r)
qed

lemma verify_first_piece: \<open>verifyQRToken h now ''{"sessionId"'' sg = JBool False\<close>
  by (simp add: verifyQRToken_def parse_first_piece)

lemma payload_fields:
  "js_get (qr_payload sessionId scanType t e) ''expiry'' = Some (js_int e)"
  "js_get (qr_payload sessionId scanType t e) ''sessionId'' = Some (JStr sessionId)"
  "js_get (qr_payload sessionId scanType t e) ''scanType'' = Some (JStr scanType)"
  "js_truthy (qr_payload sessionId scanType t e)"
  by (simp_all add: qr_payload_def)

lemma compare_int_with_clock:
  "js_gt_now (js_int e) now = Some (now < e)"
  "js_lt_now (js_int e) now = Some (e < now)"
  by (simp_all add: js_gt_now_def js_lt_now_def js_int_def)

lemma verify_signed_payload:
  "JSON_parse token = Some (qr_payload sessionId scanType t e) \<Longrightarrow>
     verifyQRToken h now token (Some (h JWT_SECRET token))
       = (if now < e then qr_payload sessionId scanType t e else JBool False)"
  by (simp add: verifyQRToken_def payload_fields compare_int_with_clock)

lemma verify_demo_token:
  "now < 1801000 \<Longrightarrow>
     verifyQRToken demo_hmac now demo_token (Some demo_sig)
       = qr_payload ''SUB001:1000'' ''IN'' 1000 1801000"
  by (simp add: demo_sig_def verify_signed_payload [OF parse_demo_token])

lemma js_get_total: "js_get v k = Some x \<Longrightarrow> \<exists>y. js_get v k' = Some y"
  by (cases v) auto

section \<open>No QR string passes the split\<close>

text \<open>
  The token that the routes hand to \<^verbatim>\<open>verifyQRToken\<close> and \<^verbatim>\<open>JSON.parse\<close> is the first
  piece of \<^verbatim>\<open>qrData.split(':')\<close>, so it has no colon. A JSON text without a colon denotes
  a value in which no object has a member; its \<^verbatim>\<open>expiry\<close> and \<^verbatim>\<open>sessionId\<close> are
  \<^verbatim>\<open>undefined\<close>. Hence the scan route of the edge function answers every QR string with
  one of three errors and never writes, and \<^verbatim>\<open>scanAttendance\<close> of the mock never records a
  scan either. This is why the statements about the token check, the session lookup and
  the record update are made about the parts of the routes after the split.
\<close>

lemma lex_plain_tokens:
  "lex_plain c = Some (m, ts) \<Longrightarrow> c \<noteq> CHR '':'' \<Longrightarrow> list_all colon_free_token ts"
  by (auto simp: lex_plain_def split: if_splits)

lemma json_word_memberless: "json_word w = Some v \<Longrightarrow> memberless v"
  by (auto simp: json_word_def split: if_splits)

lemma lex_step_tokens:
  "lex_step m c = Some (m', ts) \<Longrightarrow> c \<noteq> CHR '':'' \<Longrightarrow> list_all colon_free_token ts"
  by (cases m)
     (auto simp: lex_flush_def Let_def dest: lex_plain_tokens json_word_memberless
           split: if_splits option.splits)

lemma lex_end_tokens: "lex_end m = Some ts \<Longrightarrow> list_all colon_free_token ts"
  by (cases m) (auto dest: json_word_memberless)

lemma lex_run_tokens:
  "CHR '':'' \<notin> set cs \<Longrightarrow> lex_run m cs = Some ts \<Longrightarrow> list_all colon_free_token ts"
proof (induction cs arbitrary: m ts)
  case Nil
  then show ?case by (simp add: lex_end_tokens)
next
  case (Cons c cs)
  then obtain m' ts1 ts2 where st: "lex_step m c = Some (m', ts1)"
    and run: "lex_run m' cs = Some ts2" and ts: "ts = ts1 @ ts2"
    by (auto split: option.splits)
  from Cons.prems(1) have "c \<noteq> CHR '':''" and "CHR '':'' \<notin> set cs" by auto
  with lex_step_tokens [OF st] Cons.IH [OF _ run] ts show ?case by simp
qed

lemma put_value_ok:
  "put_value v st = Some (m', st') \<Longrightarrow> memberless v \<Longrightarrow> list_all frame_ok st \<Longrightarrow>
     list_all frame_ok st' \<and> mode_ok m'"
  by (cases "(v, st)" rule: put_value.cases) auto

lemma open_value_ok:
  "open_value t st = Some (m', st') \<Longrightarrow> colon_free_token t \<Longrightarrow> list_all frame_ok st \<Longrightarrow>
     list_all frame_ok st' \<and> mode_ok m'"
  by (cases t) (auto dest: put_value_ok)

lemma parse_step_ok:
  "parse_step m st t = Some (m', st') \<Longrightarrow> colon_free_token t \<Longrightarrow> list_all frame_ok st \<Longrightarrow>
   mode_ok m \<Longrightarrow> m' = PColon \<or> (list_all frame_ok st' \<and> mode_ok m')"
  by (cases m; cases t)
     (auto simp: parse_step_def close_array_def close_object_def open_key_def next_member_def
           dest: open_value_ok put_value_ok split: list.splits frame.splits)

lemma parse_run_after_key:
  "list_all colon_free_token ts \<Longrightarrow> parse_run PColon st ts = None"
  by (cases ts) (auto simp: parse_step_def split: token.splits)

lemma parse_run_memberless:
  "list_all colon_free_token ts \<Longrightarrow> list_all frame_ok st \<Longrightarrow> mode_ok m \<Longrightarrow>
     parse_run m st ts = Some v \<Longrightarrow> memberless v"
proof (induction ts arbitrary: m st)
  case Nil
  then show ?case by (cases m) auto
next
  case (Cons t ts)
  then obtain m' st' where st: "parse_step m st t = Some (m', st')"
    and run: "parse_run m' st' ts = Some v"
    by (auto split: option.splits)
  from Cons.prems(1) have t: "colon_free_token t" and ts: "list_all colon_free_token ts" by auto
  from parse_step_ok [OF st t Cons.prems(2,3)]
  show ?case
  proof
    assume "m' = PColon"
    with run parse_run_after_key [OF ts, of st'] show ?thesis by simp
  next
    assume "list_all frame_ok st' \<and> mode_ok m'"
    with Cons.IH [OF ts _ _ run] show ?thesis by simp
  qed
qed

lemma parse_colon_free:
  "CHR '':'' \<notin> set text \<Longrightarrow> JSON_parse text = Some v \<Longrightarrow> memberless v"
proof -
  assume c: "CHR '':'' \<notin> set text" and p: "JSON_parse text = Some v"
  from p obtain ts where l: "lex_run LPlain text = Some ts" and r: "parse_run PValue [] ts = Some v"
    by (auto simp: JSON_parse_def split: option.splits)
  from lex_run_tokens [OF c l] have "list_all colon_free_token ts" .
  from parse_run_memberless [OF this _ _ r] show "memberless v" by simp
qed

lemma memberless_get: "memberless v \<Longrightarrow> js_get v k = None \<or> js_get v k = Some JUndefined"
  by (cases v) auto

lemma undefined_never_later:
  "js_gt_now JUndefined now = Some False" "js_lt_now JUndefined now = Some False"
  by (simp_all add: js_gt_now_def js_lt_now_def)

lemma verify_colon_free:
  "CHR '':'' \<notin> set token \<Longrightarrow> verifyQRToken h now token sg = JBool False"
proof (cases "JSON_parse token")
  case None
  then show ?thesis by (simp add: verifyQRToken_def)
next
  case (Some v)
  assume "CHR '':'' \<notin> set token"
  from parse_colon_free [OF this Some] have "memberless v" .
  from memberless_get [OF this, of "''expiry''"] Some show ?thesis
    by (auto simp: verifyQRToken_def undefined_never_later)
qed

lemma split_qr_colon_free: "CHR '':'' \<notin> set (fst (split_qr qrData))"
  by (auto simp: split_qr_token dest: set_takeWhileD)

lemma scan_route_never_records:
  "fst (scan_route h kv u qrData la lo now ts)
     \<in> {Inl StudentAccessRequired, Inl OutsideCampusBoundary, Inl InvalidOrExpiredQR} \<and>
   snd (scan_route h kv u qrData la lo now ts) = kv"
  using verify_colon_free [OF split_qr_colon_free, of h now qrData "snd (split_qr qrData)"]
  by (simp add: scan_route_def verify_and_record_def split_beta)

lemma mock_check_colon_free:
  "CHR '':'' \<notin> set token \<Longrightarrow>
     fst (mock_check_and_record db studentId token la lo now ts)
       \<in> {Inl InvalidQRFormat, Inl UncaughtTypeError, Inl SessionNotFound} \<and>
     snd (mock_check_and_record db studentId token la lo now ts) = db"
proof (cases "JSON_parse token")
  case None
  then show ?thesis by (simp add: mock_check_and_record_def)
next
  case (Some v)
  assume "CHR '':'' \<notin> set token"
  from parse_colon_free [OF this Some] have m: "memberless v" .
  from memberless_get [OF m, of "''expiry''"] memberless_get [OF m, of "''sessionId''"]
    memberless_get [OF m, of "''scanType''"]
  show ?thesis
    using Some js_get_total [of v "''expiry''" JUndefined]
    by (auto simp: mock_check_and_record_def undefined_never_later mock_record_scan_def
        mock_session_def)
qed

lemma scanAttendance_never_records:
  "fst (scanAttendance db studentId qrData la lo now ts)
     \<in> {Inl OutsideCampusBoundary, Inl InvalidQRFormat, Inl UncaughtTypeError, Inl SessionNotFound} \<and>
   snd (scanAttendance db studentId qrData la lo now ts) = db"
  using mock_check_colon_free [OF split_qr_colon_free, of db studentId qrData la lo now ts]
  by (auto simp: scanAttendance_def Let_def split_beta)

section \<open>The record update\<close>

lemma kv_get_set: "kv_get (kv_set k v store) k' = (if k' = k then Some v else kv_get store k')"
  by (simp add: kv_get_def kv_set_def update_conv')




section \<open>A scan outside the campus\<close>



section \<open>A freshly issued token\<close>

text \<open>
  Claim C2 says that decoding a freshly encoded wire token returns the session id and the
  direction that were encoded. The code does not do that. The payload is JSON, so its text
  holds colons, and \<^verbatim>\<open>qrData.split(':')\<close> cuts at the first of them: what reaches
  \<^verbatim>\<open>verifyQRToken\<close> and \<^verbatim>\<open>JSON.parse\<close> is the piece \<^verbatim>\<open>{"sessionId"\<close>, which is no JSON
  text. For every session id, direction and clock, a student on campus who presents the
  token \<^verbatim>\<open>generateQRToken\<close> has just made is answered \<open>InvalidOrExpiredQR\<close>, and the mock
  answers \<open>InvalidQRFormat\<close>; so is the token that comes back from creating a session.
\<close>

theorem fresh_token_rejected:
  "isWithinCampus la lo \<Longrightarrow>
     (cu_role u = ''student'' \<longrightarrow>
        scan_route h kv u (wire (generateQRToken h sessionId scanType now1 now2)) la lo now ts
          = (Inl InvalidOrExpiredQR, kv)) \<and>
     (\<forall>sid qr kv1.
        session_route h kv0 faculty subjectId date start now0 now1 now2 stamp1 stamp2
          = (Inr (sid, qr), kv1) \<and> cu_role u = ''student'' \<longrightarrow>
        scan_route h kv1 u qr la lo now ts = (Inl InvalidOrExpiredQR, kv1)) \<and>
     scanAttendance db studentId (mock_qr sessionId st now1 now2 now3) la lo now ts
        = (Inl InvalidQRFormat, db) \<and>
     (\<forall>sid qr db1.
        createSession db0 facultyId subjectId date start now0 stamp1 now1 now2 now3 = ((sid, qr), db1)
          \<longrightarrow> scanAttendance db1 studentId qr la lo now ts = (Inl InvalidQRFormat, db1))"
proof -
  assume w: "isWithinCampus la lo"
  have s1: \<open>\<exists>sg. split_qr (wire (generateQRToken h sid sty n1 n2)) = (''{"sessionId"'', Some sg)\<close>
    for sid sty n1 n2
    using split_fresh_payload [of sid "scan_type_name sty" n1]
    by (simp add: wire_def generateQRToken_def Let_def)
  have s2: \<open>\<exists>sg. split_qr (mock_qr sid sty n1 n2 n3) = (''{"sessionId"'', Some sg)\<close>
    for sid sty n1 n2 n3
    using split_fresh_payload [of sid sty n1]
    by (simp add: wire_def mock_qr_def Let_def)
  have r: "cu_role u = ''student'' \<Longrightarrow>
      scan_route h kv u (wire (generateQRToken h sid sty n1 n2)) la lo now ts
        = (Inl InvalidOrExpiredQR, kv)" for sid sty n1 n2
    using w s1 [of sid sty n1 n2]
    by (auto simp: scan_route_def verify_and_record_def verify_first_piece)
  have r': "cu_role u = ''student'' \<Longrightarrow>
      scan_route h kv' u (wire (generateQRToken h sid sty n1 n2)) la lo now ts
        = (Inl InvalidOrExpiredQR, kv')" for sid sty n1 n2 kv'
    using w s1 [of sid sty n1 n2]
    by (auto simp: scan_route_def verify_and_record_def verify_first_piece)
  from w have g: "\<not> 2000 < calculateDistance la lo 22.3039 73.3620"
    using mock_geofence [of la lo] by simp
  have m: "scanAttendance db' studentId (mock_qr sid sty n1 n2 n3) la lo now ts
        = (Inl InvalidQRFormat, db')" for sid sty n1 n2 n3 db'
    using g s2 [of sid sty n1 n2 n3]
    by (auto simp: scanAttendance_def mock_check_and_record_def parse_first_piece)
  show ?thesis
    using r r' m by (auto simp: session_route_def createSession_def Let_def split: if_splits)
qed

theorem fresh_token_rejected_witness:
  "isWithinCampus 22.3039 73.3620 \<and>
   generateQRToken demo_hmac ''SUB001:1000'' IN 1000 1000 = (demo_token, demo_sig) \<and>
   verifyQRToken demo_hmac 5000 demo_token (Some demo_sig)
     = qr_payload ''SUB001:1000'' ''IN'' 1000 1801000 \<and>
   scan_route demo_hmac demo_kv demo_student (wire (demo_token, demo_sig))
       22.3039 73.3620 5000 ''2024-01-15T09:05:00.000Z''
     = (Inl InvalidOrExpiredQR, demo_kv) \<and>
   scanAttendance demo_db ''STU001'' (mock_qr ''SUB001:1000'' ''IN'' 1000 1000 1000)
       22.3039 73.3620 5000 ''2024-01-15T09:05:00.000Z''
     = (Inl InvalidQRFormat, demo_db)"
  using fresh_token_rejected
      [where u = demo_student and h = demo_hmac and kv = demo_kv and sessionId = "''SUB001:1000''"
         and scanType = IN and ?now1.0 = 1000 and ?now2.0 = 1000 and now = 5000
         and ts = "''2024-01-15T09:05:00.000Z''" and db = demo_db and studentId = "''STU001''"
         and st = "''IN''" and ?now3.0 = 1000, OF within_campus_centre]
    within_campus_centre generate_demo_token [of demo_hmac] verify_demo_token [of 5000]
  by (simp add: demo_student_def demo_sig_def)


section \<open>The expiry instant\<close>

text \<open>
  Claim C5 says that a token is still accepted when the clock shows exactly its expiry.
  \<^verbatim>\<open>verifyQRToken\<close> keeps the payload only if \<^verbatim>\<open>payload.expiry > Date.now()\<close>, so at that
  instant it answers \<^verbatim>\<open>false\<close>, one millisecond before it the payload and at every later
  one \<^verbatim>\<open>false\<close>; the mock tests \<^verbatim>\<open>qrPayload.expiry < Date.now()\<close>, goes on to the record
  update at the expiry instant and answers \<open>QRExpired\<close> only after it.
\<close>

theorem verify_at_expiry:
  "JSON_parse token = Some (qr_payload sessionId scanType t e) \<Longrightarrow>
     verifyQRToken h e token (Some (h JWT_SECRET token)) = JBool False \<and>
     verifyQRToken h (e - 1) token (Some (h JWT_SECRET token)) = qr_payload sessionId scanType t e \<and>
     (e < now \<longrightarrow> verifyQRToken h now token (Some (h JWT_SECRET token)) = JBool False) \<and>
     mock_check_and_record db studentId token la lo e ts
       = mock_record_scan db studentId (qr_payload sessionId scanType t e) la lo ts \<and>
     (e < now \<longrightarrow> mock_check_and_record db studentId token la lo now ts = (Inl QRExpired, db))"
  by (simp add: verify_signed_payload mock_check_and_record_def payload_fields compare_int_with_clock)

theorem verify_at_expiry_witness:
  "JSON_parse demo_token = Some (qr_payload ''SUB001:1000'' ''IN'' 1000 1801000) \<and>
   generateQRToken demo_hmac ''SUB001:1000'' IN 1000 1000 = (demo_token, demo_sig) \<and>
   verifyQRToken demo_hmac 1801000 demo_token (Some demo_sig) = JBool False \<and>
   verifyQRToken demo_hmac 1800999 demo_token (Some demo_sig)
     = qr_payload ''SUB001:1000'' ''IN'' 1000 1801000"
  using verify_at_expiry [OF parse_demo_token, of demo_hmac] generate_demo_token [of demo_hmac]
    parse_demo_token
  by (simp add: demo_sig_def)

section \<open>A signature that does not match\<close>

text \<open>
  Claim C1, as amended. \<^verbatim>\<open>verifyQRToken\<close> recomputes the digest of the presented token and
  answers \<^verbatim>\<open>false\<close> whenever the presented signature is another string or is missing. The
  scan route then answers \<open>InvalidOrExpiredQR\<close>, which is also its answer to an expired
  or unparsable token, and leaves the store as it was; it never records a scan for such
  a token. \<^verbatim>\<open>MockDatabase.scanAttendance\<close> does not read the signature: two QR strings that
  differ only after the token's colon get the same result.
\<close>

theorem altered_signature_rejected:
  "sg \<noteq> Some (h JWT_SECRET token) \<Longrightarrow>
     verifyQRToken h now token sg = JBool False \<and>
     verify_and_record h kv u token sg la lo now ts = (Inl InvalidOrExpiredQR, kv) \<and>
     scanAttendance db studentId (token @ '':'' @ sig1) la lo now ts
       = scanAttendance db studentId (token @ '':'' @ sig2) la lo now ts"
proof -
  assume a: "sg \<noteq> Some (h JWT_SECRET token)"
  have v: "verifyQRToken h now token sg = JBool False"
    using a by (simp add: verifyQRToken_def)
  have m: "scanAttendance db studentId (token @ '':'' @ sig1) la lo now ts
       = scanAttendance db studentId (token @ '':'' @ sig2) la lo now ts"
    using split_qr_ignores_signature [of token sig1 sig2]
    by (simp add: scanAttendance_def Let_def split_beta)
  show ?thesis
    using v m by (simp add: verify_and_record_def)
qed

theorem altered_signature_witness:
  "Some ''forged'' \<noteq> Some (demo_hmac JWT_SECRET demo_token) \<and>
   verifyQRToken demo_hmac 5000 demo_token (Some ''forged'') = JBool False \<and>
   verify_and_record demo_hmac demo_kv demo_student demo_token (Some ''forged'')
       22.3039 73.3620 5000 ''2024-01-15T09:05:00.000Z''
     = (Inl InvalidOrExpiredQR, demo_kv) \<and>
   verifyQRToken demo_hmac 5000 demo_token (Some demo_sig)
     = qr_payload ''SUB001:1000'' ''IN'' 1000 1801000"
proof -
  have f: "Some ''forged'' \<noteq> Some (demo_hmac JWT_SECRET demo_token)"
    by (simp add: demo_hmac_def)
  from altered_signature_rejected
         [where sg = "Some ''forged''" and h = demo_hmac and token = demo_token and now = 5000
            and kv = demo_kv and u = demo_student and ts = "''2024-01-15T09:05:00.000Z''"
            and la = "22.3039" and lo = "73.3620", OF f]
       verify_demo_token [of 5000] f
  show ?thesis by simp
qed

text \<open>
  Claim C1 as it is written fails: no answer names a signature mismatch. The sample token
  with a forged signature, presented in time, gets the very answer that the same token
  with its own signature gets one millisecond after its expiry; and the mock, given the
  token with the forged signature, complains about the format of the QR code.
\<close>

theorem forged_signature_same_answer_as_expired:
  "verify_and_record demo_hmac demo_kv demo_student demo_token (Some ''forged'')
       22.3039 73.3620 5000 ''2024-01-15T09:05:00.000Z''
     = (Inl InvalidOrExpiredQR, demo_kv) \<and>
   verify_and_record demo_hmac demo_kv demo_student demo_token (Some demo_sig)
       22.3039 73.3620 1801001 ''2024-01-15T09:05:00.000Z''
     = (Inl InvalidOrExpiredQR, demo_kv) \<and>
   scanAttendance demo_db ''STU001'' (demo_token @ '':'' @ ''forged'')
       22.3039 73.3620 5000 ''2024-01-15T09:05:00.000Z''
     = (Inl InvalidQRFormat, demo_db)"
proof -
  have a: "verifyQRToken demo_hmac 5000 demo_token (Some ''forged'') = JBool False"
    by (simp add: verifyQRToken_def demo_hmac_def)
  have b: "verifyQRToken demo_hmac 1801001 demo_token (Some demo_sig) = JBool False"
    by (simp add: demo_sig_def verify_signed_payload [OF parse_demo_token])
  have \<open>CHR '':'' \<notin> set ''{"sessionId"''\<close> by simp
  from split_qr_first [OF this] have c:
    \<open>\<exists>sg. split_qr (demo_token @ '':'' @ ''forged'') = (''{"sessionId"'', Some sg)\<close>
    by (simp add: demo_token_def)
  have d: "\<not> 2000 < calculateDistance 22.3039 73.3620 22.3039 73.3620"
    by (simp add: distance_same_point)
  have e: "scanAttendance demo_db ''STU001'' (demo_token @ '':'' @ ''forged'')
       22.3039 73.3620 5000 ''2024-01-15T09:05:00.000Z'' = (Inl InvalidQRFormat, demo_db)"
    using c d by (auto simp: scanAttendance_def mock_check_and_record_def parse_first_piece)
  show ?thesis
    using a b e by (simp add: verify_and_record_def)
qed

section \<open>The order of the checks\<close>




section \<open>A second scan of the same direction\<close>








section \<open>A direction that is neither IN nor OUT\<close>




section \<open>Issuing the OUT token\<close>

text \<open>
  Claim C8 as it is written fails in the edge function: the second faculty member of the
  sample data asks for the OUT token of the sample session, which exists and belongs to
  the first, and is answered \<open>SessionNotFound\<close>.
\<close>

theorem generate_out_for_foreign_session:
  "kv_get (kv_sessions demo_kv) (''session:'' @ ''SUB001:1000'') = Some demo_session \<and>
   generate_out_route demo_hmac demo_kv demo_other_faculty ''SUB001:1000'' 2000 2000
       ''2024-01-15T10:00:00.000Z''
     = (Inl SessionNotFound, demo_kv)"
  by (simp add: generate_out_route_def demo_kv_def demo_other_faculty_def demo_session_def kv_get_def)

text \<open>
  Claim C8, as amended. For a caller with the faculty role, the route of the edge function
  answers \<open>SessionNotFound\<close> exactly when no session is stored under the id or the stored
  session belongs to another faculty member (a caller without the role is answered
  \<open>FacultyAccessRequired\<close>). \<^verbatim>\<open>MockDatabase.generateOutQR\<close> answers \<open>SessionNotFound\<close>
  exactly when no session has the id. Otherwise the session is stored again with
  \<^verbatim>\<open>outGenerationTs\<close> set to the current time (in the edge function also with the OUT
  token and its signature), nothing else in the store changes, and the result is the
  payload for this session id and direction OUT, a colon and the signature.
\<close>

theorem generate_out_token:
  "cu_role u = ''faculty'' \<Longrightarrow>
     (fst (generate_out_route h kv u sessionId now1 now2 stamp) = Inl SessionNotFound
        \<longleftrightarrow> (case kv_get (kv_sessions kv) (''session:'' @ sessionId) of
               None \<Rightarrow> True
             | Some session \<Rightarrow> s_facultyId session \<noteq> cu_id u)) \<and>
     (\<forall>session. kv_get (kv_sessions kv) (''session:'' @ sessionId) = Some session \<and>
        s_facultyId session = cu_id u \<longrightarrow>
        generate_out_route h kv u sessionId now1 now2 stamp
          = (Inr (stringify_object (qr_payload sessionId ''OUT'' now1 (now2 + 1800000)) @ '':'' @
                  h JWT_SECRET (stringify_object (qr_payload sessionId ''OUT'' now1 (now2 + 1800000)))),
             kv\<lparr>kv_sessions := kv_set (''session:'' @ sessionId)
                   (session\<lparr>outGenerationTs := Some stamp,
                            outQrToken := Some (stringify_object (qr_payload sessionId ''OUT'' now1 (now2 + 1800000))),
                            outQrSignature := Some (h JWT_SECRET
                               (stringify_object (qr_payload sessionId ''OUT'' now1 (now2 + 1800000))))\<rparr>)
                   (kv_sessions kv)\<rparr>) \<and>
        map_option outGenerationTs
          (kv_get (kv_sessions (snd (generate_out_route h kv u sessionId now1 now2 stamp)))
             (''session:'' @ sessionId)) = Some (Some stamp)) \<and>
     (fst (generateOutQR db sessionId now1 now2 now3 stamp) = Inl SessionNotFound
        \<longleftrightarrow> map_of (db_sessions db) sessionId = None) \<and>
     (\<forall>session. map_of (db_sessions db) sessionId = Some session \<longrightarrow>
        generateOutQR db sessionId now1 now2 now3 stamp
          = (Inr (stringify_object (qr_payload sessionId ''OUT'' now1 (now2 + 1800000)) @ '':'' @
                  ''mock-signature-'' @ number_to_string (Fin (of_int now3))),
             db\<lparr>db_sessions := AList.update sessionId (session\<lparr>outGenerationTs := Some stamp\<rparr>)
                   (db_sessions db)\<rparr>) \<and>
        map_option outGenerationTs
          (map_of (db_sessions (snd (generateOutQR db sessionId now1 now2 now3 stamp))) sessionId)
          = Some (Some stamp))"
  by (auto simp: generate_out_route_def generateOutQR_def generateQRToken_def mock_qr_def wire_def
      kv_get_set update_conv' Let_def split: option.splits)

theorem generate_out_token_witness:
  "cu_role demo_faculty = ''faculty'' \<and>
   kv_get (kv_sessions demo_kv) (''session:'' @ ''SUB001:1000'') = Some demo_session \<and>
   s_facultyId demo_session = cu_id demo_faculty \<and>
   generate_out_route demo_hmac demo_kv demo_faculty ''SUB001:1000'' 2000 2000
       ''2024-01-15T10:00:00.000Z''
     = (Inr (demo_out_token @ '':'' @ demo_hmac JWT_SECRET demo_out_token),
        demo_kv\<lparr>kv_sessions := [(''session:SUB001:1000'',
           demo_session\<lparr>outGenerationTs := Some ''2024-01-15T10:00:00.000Z'',
                        outQrToken := Some demo_out_token,
                        outQrSignature := Some (demo_hmac JWT_SECRET demo_out_token)\<rparr>)]\<rparr>) \<and>
   fst (generate_out_route demo_hmac (demo_kv\<lparr>kv_sessions := []\<rparr>) demo_faculty ''SUB001:1000''
          2000 2000 ''2024-01-15T10:00:00.000Z'') = Inl SessionNotFound \<and>
   fst (generateOutQR (demo_db\<lparr>db_sessions := []\<rparr>) ''SUB001:1000'' 2000 2000 2000
          ''2024-01-15T10:00:00.000Z'') = Inl SessionNotFound"
proof -
  have role: "cu_role demo_faculty = ''faculty''"
    by (simp add: demo_faculty_def)
  have s: "kv_get (kv_sessions demo_kv) (''session:'' @ ''SUB001:1000'') = Some demo_session"
    by (simp add: demo_kv_def kv_get_def)
  have own: "s_facultyId demo_session = cu_id demo_faculty"
    by (simp add: demo_session_def demo_faculty_def)
  have none: "kv_get (kv_sessions (demo_kv\<lparr>kv_sessions := []\<rparr>)) (''session:'' @ ''SUB001:1000'') = None"
    "map_of (db_sessions (demo_db\<lparr>db_sessions := []\<rparr>)) ''SUB001:1000'' = None"
    by (simp_all add: kv_get_def)
  note t1 = generate_out_token [OF role, where h = demo_hmac and kv = demo_kv
      and sessionId = "''SUB001:1000''" and ?now1.0 = 2000 and ?now2.0 = 2000
      and stamp = "''2024-01-15T10:00:00.000Z''"]
  note t2 = generate_out_token [OF role, where h = demo_hmac and kv = "demo_kv\<lparr>kv_sessions := []\<rparr>"
      and sessionId = "''SUB001:1000''" and ?now1.0 = 2000 and ?now2.0 = 2000
      and stamp = "''2024-01-15T10:00:00.000Z''" and db = "demo_db\<lparr>db_sessions := []\<rparr>"
      and ?now3.0 = 2000]
  have w1: "generate_out_route demo_hmac demo_kv demo_faculty ''SUB001:1000'' 2000 2000
       ''2024-01-15T10:00:00.000Z''
     = (Inr (demo_out_token @ '':'' @ demo_hmac JWT_SECRET demo_out_token),
        demo_kv\<lparr>kv_sessions := [(''session:SUB001:1000'',
           demo_session\<lparr>outGenerationTs := Some ''2024-01-15T10:00:00.000Z'',
                        outQrToken := Some demo_out_token,
                        outQrSignature := Some (demo_hmac JWT_SECRET demo_out_token)\<rparr>)]\<rparr>)"
    using t1 s own print_demo_out_token
    by (simp add: kv_set_def demo_kv_def)
  have w2: "fst (generate_out_route demo_hmac (demo_kv\<lparr>kv_sessions := []\<rparr>) demo_faculty ''SUB001:1000''
          2000 2000 ''2024-01-15T10:00:00.000Z'') = Inl SessionNotFound"
    using t2 none by simp
  have w3: "fst (generateOutQR (demo_db\<lparr>db_sessions := []\<rparr>) ''SUB001:1000'' 2000 2000 2000
          ''2024-01-15T10:00:00.000Z'') = Inl SessionNotFound"
    using t2 none by simp
  show ?thesis
    using role s own w1 w2 w3 by simp
qed

section \<open>The attendance summary of a student\<close>


lemma percentage_29_of_200: "attendance_percentage 200 29 = 14"
  by (simp add: attendance_percentage_def Math_round_def double_eval)










end
